theory Spec2Isabelle
  imports Complex_Main "HOL-Library.Multiset" "HOL-Library.Char_ord"
    "HOL-Library.List_Lexorder" "HOL-Library.Product_Lexorder"
begin

section \<open>Strings\<close>

text \<open>
  Python strings are modelled as \<^typ>\<open>string\<close>, the UTF-8 bytes of the text. Quantities
  are Python floats in the source; the model computes with exact rationals, which is what
  the floats do on the whole numbers (below \<open>2^53\<close>) that stock quantities are.
  Case mapping (\<open>str.lower\<close>, \<open>str.upper\<close>) is modelled on the ASCII letters and on
  the two-byte letters of the Latin-1 supplement; \<open>str.strip\<close> on the ASCII white space.
\<close>

definition ascii_upper :: string where
  "ascii_upper = ''ABCDEFGHIJKLMNOPQRSTUVWXYZ''"

definition ascii_lower :: string where
  "ascii_lower = ''abcdefghijklmnopqrstuvwxyz''"

text \<open>The second bytes of the capital and of the small letters of the Latin-1 supplement
  (first byte \<open>0xC3\<close>), in the same order; the multiplication and division signs are no letters.\<close>

definition latin_upper :: string where
  "latin_upper = [CHR 0x80, CHR 0x81, CHR 0x82, CHR 0x83, CHR 0x84, CHR 0x85, CHR 0x86, CHR 0x87, CHR 0x88, CHR 0x89, CHR 0x8A, CHR 0x8B, CHR 0x8C, CHR 0x8D, CHR 0x8E, CHR 0x8F, CHR 0x90, CHR 0x91, CHR 0x92, CHR 0x93, CHR 0x94, CHR 0x95, CHR 0x96, CHR 0x98, CHR 0x99, CHR 0x9A, CHR 0x9B, CHR 0x9C, CHR 0x9D, CHR 0x9E]"

definition latin_lower :: string where
  "latin_lower = [CHR 0xA0, CHR 0xA1, CHR 0xA2, CHR 0xA3, CHR 0xA4, CHR 0xA5, CHR 0xA6, CHR 0xA7, CHR 0xA8, CHR 0xA9, CHR 0xAA, CHR 0xAB, CHR 0xAC, CHR 0xAD, CHR 0xAE, CHR 0xAF, CHR 0xB0, CHR 0xB1, CHR 0xB2, CHR 0xB3, CHR 0xB4, CHR 0xB5, CHR 0xB6, CHR 0xB8, CHR 0xB9, CHR 0xBA, CHR 0xBB, CHR 0xBC, CHR 0xBD, CHR 0xBE]"

definition map_char :: "string \<Rightarrow> string \<Rightarrow> char \<Rightarrow> char" where
  "map_char from to c = (case map_of (zip from to) c of Some d \<Rightarrow> d | None \<Rightarrow> c)"

definition lower_char :: "char \<Rightarrow> char" where
  "lower_char c = map_char ascii_upper ascii_lower c"

definition upper_char :: "char \<Rightarrow> char" where
  "upper_char c = map_char ascii_lower ascii_upper c"

fun lower_py :: "string \<Rightarrow> string" where
  "lower_py [] = []"
| "lower_py [c] = [lower_char c]"
| "lower_py (c # d # s) =
     (if c = CHR 0xC3 \<and> d \<in> set latin_upper
      then c # map_char latin_upper latin_lower d # lower_py s
      else lower_char c # lower_py (d # s))"

fun upper_py :: "string \<Rightarrow> string" where
  "upper_py [] = []"
| "upper_py [c] = [upper_char c]"
| "upper_py (c # d # s) =
     (if c = CHR 0xC3 \<and> d \<in> set latin_lower
      then c # map_char latin_lower latin_upper d # upper_py s
      else upper_char c # upper_py (d # s))"

text \<open>\<open>s.startswith(p)\<close> and \<open>sub in s\<close>.\<close>

fun startswith :: "string \<Rightarrow> string \<Rightarrow> bool" where
  "startswith s [] = True"
| "startswith [] (p # ps) = False"
| "startswith (c # s) (p # ps) = (c = p \<and> startswith s ps)"

fun str_contains :: "string \<Rightarrow> string \<Rightarrow> bool" where
  "str_contains [] sub = (sub = [])"
| "str_contains (c # s) sub = (startswith (c # s) sub \<or> str_contains s sub)"

section \<open>Constants (config/constants.py)\<close>

definition INVALID_LOC_PREFIXES :: "string list" where
  "INVALID_LOC_PREFIXES = [''AA'']"

definition INVALID_LOC_EXACT :: "string list" where
  "INVALID_LOC_EXACT = [''TRANSIT'', ''TRANSIT_ERROR'', ''MISSING'', ''UT2'']"

definition ALLOC_BUFFER_STATUSES :: "int list" where
  "ALLOC_BUFFER_STATUSES = [29, 30, 32]"

definition REFILL_BUFFER_STATUSES :: "int list" where
  "REFILL_BUFFER_STATUSES = [29, 30]"

definition NEAR_MISS_PCT :: rat where
  "NEAR_MISS_PCT = 15 / 100"

section \<open>Data model of the allocation engine (logic/allocation.py)\<close>

text \<open>
  An order line after the normalisation of lines 33-37: the raw cells of the row (column
  name and the text of the cell) and the derived columns \<open>_artikel\<close>, \<open>_qty\<close>,
  \<open>_order_id\<close>, \<open>_order_line\<close>; \<open>o_status_num\<close> is the numeral that line 42 extracts
  from the status cell (\<open>None\<close> for \<open>NaN\<close>: no status column, or no digit in the cell).
\<close>

record order_row =
  o_cells :: "(string \<times> string) list"
  o_artikel :: string
  o_qty :: rat
  o_order_id :: string
  o_order_line :: string
  o_status_num :: "int option"

text \<open>
  A buffer row after lines 52-57; \<open>b_received\<close> is the received timestamp in nanoseconds
  (\<open>None\<close> for \<open>NaT\<close>), \<open>b_status_num\<close> the numeral extracted from the status cell.
\<close>

record buffer_row =
  b_artikel :: string
  b_qty :: rat
  b_loc :: string
  b_received :: "int option"
  b_source_id :: string
  b_status_num :: "int option"

text \<open>The dictionaries held in the pallet and bin queues (lines 95 and 99).\<close>

record unit_rec =
  source_id :: string
  qty :: rat
  loc :: string
  received :: "int option"

datatype ktyp = HELPALL | AUTOSTORE | HUVUDPLOCK | SKRYMMANDE

text \<open>
  An allocated row: the clone of the order row, the quantity written over the order's
  quantity column, and the four added columns.
\<close>

record alloc_row =
  a_order :: order_row
  a_qty :: rat
  a_zon :: string
  a_ktyp :: ktyp
  a_kalla :: string
  a_kallplats :: string

text \<open>A near-miss row; \<open>nm_galler\<close> is the key that lines 191-199 add (\<open>None\<close>: key absent).\<close>

record near_miss =
  nm_artikel :: string
  nm_order_id :: string
  nm_order_rad :: string
  nm_pall_id :: string
  nm_kallplats :: string
  nm_mottagen :: "int option"
  nm_behov :: rat
  nm_pall_kvantitet :: rat
  nm_skillnad :: rat
  nm_procent :: rat
  nm_anledning :: string
  nm_galler :: "bool option"

definition anledning_text :: string where
  "anledning_text = ''Pallen var '' @ [char_of (226::nat), char_of (137::nat), char_of (164::nat)]
     @ ''15% st'' @ [char_of (195::nat), char_of (182::nat)] @ ''rre ''
     @ [char_of (195::nat), char_of (164::nat)] @ ''n ''
     @ [char_of (195::nat), char_of (165::nat)] @ ''terst''
     @ [char_of (195::nat), char_of (165::nat)] @ ''ende behov (kan ej brytas)''"

record alloc_state =
  pallet_queues :: "string \<Rightarrow> unit_rec list"
  bin_queues :: "string \<Rightarrow> unit_rec list"
  allocated_rows :: "alloc_row list"
  near_miss_rows :: "near_miss list"

section \<open>The per-line stages\<close>

text \<open>\<open>record_near_miss\<close> (lines 107-125) appends to \<open>near_miss_rows\<close> or leaves it.\<close>

definition near_miss_row :: "order_row \<Rightarrow> unit_rec \<Rightarrow> rat \<Rightarrow> near_miss" where
  "near_miss_row orow pal need =
     \<lparr>nm_artikel = o_artikel orow, nm_order_id = o_order_id orow,
      nm_order_rad = o_order_line orow, nm_pall_id = source_id pal,
      nm_kallplats = loc pal, nm_mottagen = received pal, nm_behov = need,
      nm_pall_kvantitet = qty pal, nm_skillnad = qty pal - need,
      nm_procent = ((qty pal - need) / need) * 100,
      nm_anledning = anledning_text, nm_galler = None\<rparr>"

definition record_near_miss :: "order_row \<Rightarrow> unit_rec \<Rightarrow> rat \<Rightarrow> near_miss list \<Rightarrow> near_miss list" where
  "record_near_miss orow pal need nms =
     (if need \<le> 0 then nms
      else let diff = qty pal - need in
        if diff \<le> 0 then nms
        else let pct = diff / need in
          if pct \<le> NEAR_MISS_PCT then nms @ [near_miss_row orow pal need]
          else nms)"

definition helpall_row :: "order_row \<Rightarrow> unit_rec \<Rightarrow> alloc_row" where
  "helpall_row orow pal = \<lparr>a_order = orow, a_qty = qty pal, a_zon = ''H'', a_ktyp = HELPALL,
     a_kalla = source_id pal, a_kallplats = loc pal\<rparr>"

definition autostore_row :: "order_row \<Rightarrow> unit_rec \<Rightarrow> rat \<Rightarrow> alloc_row" where
  "autostore_row orow binr take_q = \<lparr>a_order = orow, a_qty = take_q, a_zon = ''R'', a_ktyp = AUTOSTORE,
     a_kalla = source_id binr, a_kallplats = loc binr\<rparr>"

definition huvudplock_row :: "order_row \<Rightarrow> rat \<Rightarrow> alloc_row" where
  "huvudplock_row orow need = \<lparr>a_order = orow, a_qty = need, a_zon = ''A'', a_ktyp = HUVUDPLOCK,
     a_kalla = [], a_kallplats = []\<rparr>"

text \<open>
  The loop of lines 137-152 over \<open>tmp\<close>, carrying \<open>need\<close>, \<open>new_pq\<close>, \<open>any_helpall\<close>,
  \<open>allocated_rows\<close> and \<open>near_miss_rows\<close>; it returns what is left of \<open>tmp\<close> with them.
\<close>

fun helpall_loop :: "order_row \<Rightarrow> unit_rec list \<Rightarrow> rat \<Rightarrow> unit_rec list \<Rightarrow> bool \<Rightarrow>
    alloc_row list \<Rightarrow> near_miss list \<Rightarrow>
    unit_rec list \<times> rat \<times> unit_rec list \<times> bool \<times> alloc_row list \<times> near_miss list" where
  "helpall_loop orow [] need new_pq any_helpall ars nms = ([], need, new_pq, any_helpall, ars, nms)"
| "helpall_loop orow (pal # tmp) need new_pq any_helpall ars nms =
     (if need > 0 then
        (if qty pal \<le> need
         then helpall_loop orow tmp (need - qty pal) new_pq True (ars @ [helpall_row orow pal]) nms
         else helpall_loop orow tmp need (new_pq @ [pal]) any_helpall ars
                (record_near_miss orow pal need nms))
      else (pal # tmp, need, new_pq, any_helpall, ars, nms))"

text \<open>The loop of lines 160-174 over \<open>bq\<close>.\<close>

fun autostore_loop :: "order_row \<Rightarrow> unit_rec list \<Rightarrow> rat \<Rightarrow> unit_rec list \<Rightarrow> bool \<Rightarrow>
    alloc_row list \<Rightarrow> unit_rec list \<times> rat \<times> unit_rec list \<times> bool \<times> alloc_row list" where
  "autostore_loop orow [] need new_bq any_autostore ars = ([], need, new_bq, any_autostore, ars)"
| "autostore_loop orow (binr # bq) need new_bq any_autostore ars =
     (if need > 0 then
        (let take_q = min (qty binr) need in
         if take_q > 0
         then (let binr' = binr\<lparr>qty := qty binr - take_q\<rparr> in
               autostore_loop orow bq (need - take_q)
                 (if qty binr' > 0 then new_bq @ [binr'] else new_bq) True
                 (ars @ [autostore_row orow binr take_q]))
         else autostore_loop orow bq need
                 (if qty binr > 0 then new_bq @ [binr] else new_bq) any_autostore ars)
      else (binr # bq, need, new_bq, any_autostore, ars))"


text \<open>Lines 191-199: every near-miss row of this order id and line gets the flag.\<close>

definition mark_near_miss :: "order_row \<Rightarrow> bool \<Rightarrow> near_miss list \<Rightarrow> near_miss list" where
  "mark_near_miss orow flag nms =
     map (\<lambda>r. if nm_order_id r = o_order_id orow \<and> nm_order_rad r = o_order_line orow
               then r\<lparr>nm_galler := Some flag\<rparr> else r) nms"

text \<open>The body of the loop over the order lines (lines 127-199).\<close>

definition process_line :: "order_row \<Rightarrow> alloc_state \<Rightarrow> alloc_state" where
  "process_line orow st =
     (let art = o_artikel orow; need = o_qty orow in
      if need \<le> 0 then st
      else
        (case helpall_loop orow (pallet_queues st art) need [] False
                (allocated_rows st) (near_miss_rows st) of
           (tmp, need1, new_pq, any_helpall, ars1, nms1) \<Rightarrow>
        (case autostore_loop orow (bin_queues st art) need1 [] False ars1 of
           (bq, need2, new_bq, any_autostore, ars2) \<Rightarrow>
        (let any_mainpick = (need2 > 0);
             ars3 = (if need2 > 0 then ars2 @ [huvudplock_row orow need2] else ars2);
             flag = (\<not> any_helpall \<and> (any_autostore \<or> any_mainpick))
         in \<lparr>pallet_queues = (pallet_queues st)(art := new_pq @ tmp),
             bin_queues = (bin_queues st)(art := new_bq @ bq),
             allocated_rows = ars3,
             near_miss_rows = mark_near_miss orow flag nms1\<rparr>))))"

section \<open>Column discovery (utils/common.py, io/schemas.py)\<close>

text \<open>\<open>KeyError\<close> carries the two values its message prints: the candidates and \<open>list(df.columns)\<close>.\<close>

datatype error = KeyError "string list" "string list"

text \<open>A Python \<open>dict\<close> as an association list: a new key is appended, an old one keeps its place.\<close>

fun dict_set :: "'k \<Rightarrow> 'v \<Rightarrow> ('k \<times> 'v) list \<Rightarrow> ('k \<times> 'v) list" where
  "dict_set k v [] = [(k, v)]"
| "dict_set k v (p # ps) = (if fst p = k then (k, v) # ps else p # dict_set k v ps)"

text \<open>\<open>{c.lower(): c for c in df.columns}\<close>\<close>

definition lower_cols :: "string list \<Rightarrow> (string \<times> string) list" where
  "lower_cols cs = foldl (\<lambda>d c. dict_set (lower_py c) c d) [] cs"

fun find_exact :: "(string \<times> string) list \<Rightarrow> string list \<Rightarrow> string option" where
  "find_exact d [] = None"
| "find_exact d (cand # cands) =
     (case map_of d (lower_py cand) of Some c \<Rightarrow> Some c | None \<Rightarrow> find_exact d cands)"

fun find_substr :: "(string \<times> string) list \<Rightarrow> string list \<Rightarrow> string option" where
  "find_substr [] cands = None"
| "find_substr ((key, orig) # d) cands =
     (if list_ex (\<lambda>cand. str_contains key (lower_py cand)) cands then Some orig
      else find_substr d cands)"

definition find_col :: "string list \<Rightarrow> string list \<Rightarrow> bool \<Rightarrow> string option \<Rightarrow> error + string option" where
  "find_col df_columns candidates required dflt =
     (let cols = lower_cols df_columns in
      case find_exact cols candidates of
        Some c \<Rightarrow> Inr (Some c)
      | None \<Rightarrow>
         (case find_substr cols candidates of
            Some c \<Rightarrow> Inr (Some c)
          | None \<Rightarrow>
             if required \<and> dflt = None then Inl (KeyError candidates df_columns)
             else Inr dflt))"

definition a_uml :: string where
  "a_uml = [char_of (195::nat), char_of (164::nat)]"

definition ORDER_SCHEMA_artikel :: "string list" where
  "ORDER_SCHEMA_artikel = [''artikel'', ''artikelnummer'', ''sku'', ''article'', ''artnr'', ''art.nr'']"

definition ORDER_SCHEMA_qty :: "string list" where
  "ORDER_SCHEMA_qty = [''best'' @ a_uml @ ''llt'', ''antal'', ''qty'', ''quantity'', ''bestalld'', ''order qty'']"

definition ORDER_SCHEMA_status :: "string list" where
  "ORDER_SCHEMA_status = [''status'', ''radstatus'', ''orderstatus'', ''state'']"

definition ORDER_SCHEMA_ordid :: "string list" where
  "ORDER_SCHEMA_ordid = [''ordernr'', ''order nr'', ''order number'', ''kund'', ''kundnr'']"

definition ORDER_SCHEMA_radid :: "string list" where
  "ORDER_SCHEMA_radid = [''radnr'', ''rad nr'', ''line id'', ''rad'', ''struktur'', ''radsnr'']"

definition BUFFER_SCHEMA_artikel :: "string list" where
  "BUFFER_SCHEMA_artikel = [''artikel'', ''article'', ''artnr'', ''art.nr'', ''artikelnummer'']"

definition BUFFER_SCHEMA_qty :: "string list" where
  "BUFFER_SCHEMA_qty = [''antal'', ''qty'', ''quantity'', ''pallantal'', ''colli'', ''units'']"

definition BUFFER_SCHEMA_loc :: "string list" where
  "BUFFER_SCHEMA_loc = [''lagerplats'', ''plats'', ''location'', ''bin'', ''hyllplats'']"

definition BUFFER_SCHEMA_dt :: "string list" where
  "BUFFER_SCHEMA_dt = [''datum/tid'', ''datum'', ''mottagen'', ''received'', ''inleverans'',
     ''inleveransdatum'', ''timestamp'', ''arrival'']"

definition BUFFER_SCHEMA_id :: "string list" where
  "BUFFER_SCHEMA_id = [''pallid'', ''pall id'', ''id'', ''sscc'', ''etikett'', ''batch'', ''lpn'']"

definition BUFFER_SCHEMA_status :: "string list" where
  "BUFFER_SCHEMA_status = [''status'', ''pallstatus'', ''state'']"

text \<open>The columns that lines 16-27 of \<open>allocate\<close> resolve, in the order of the calls.\<close>

record resolved_cols =
  order_article_col :: "string option"
  order_qty_col :: "string option"
  order_id_col :: "string option"
  order_line_col :: "string option"
  order_status_col :: "string option"
  buff_article_col :: "string option"
  buff_qty_col :: "string option"
  buff_loc_col :: "string option"
  buff_dt_col :: "string option"
  buff_id_col :: "string option"
  buff_status_col :: "string option"

definition bind_err :: "error + 'a \<Rightarrow> ('a \<Rightarrow> error + 'b) \<Rightarrow> error + 'b" where
  "bind_err m f = (case m of Inl e \<Rightarrow> Inl e | Inr x \<Rightarrow> f x)"

definition resolve_columns :: "string list \<Rightarrow> string list \<Rightarrow> error + resolved_cols" where
  "resolve_columns orders_columns buffer_columns =
     bind_err (find_col orders_columns ORDER_SCHEMA_artikel True None) (\<lambda>oa.
     bind_err (find_col orders_columns ORDER_SCHEMA_qty True None) (\<lambda>oq.
     bind_err (find_col orders_columns ORDER_SCHEMA_ordid False None) (\<lambda>oi.
     bind_err (find_col orders_columns ORDER_SCHEMA_radid False None) (\<lambda>ol.
     bind_err (find_col orders_columns ORDER_SCHEMA_status False None) (\<lambda>os.
     bind_err (find_col buffer_columns BUFFER_SCHEMA_artikel True None) (\<lambda>ba.
     bind_err (find_col buffer_columns BUFFER_SCHEMA_qty True None) (\<lambda>bq.
     bind_err (find_col buffer_columns BUFFER_SCHEMA_loc True None) (\<lambda>bl.
     bind_err (find_col buffer_columns BUFFER_SCHEMA_dt False None) (\<lambda>bd.
     bind_err (find_col buffer_columns BUFFER_SCHEMA_id False None) (\<lambda>bi.
     bind_err (find_col buffer_columns BUFFER_SCHEMA_status False None) (\<lambda>bs.
     Inr \<lparr>order_article_col = oa, order_qty_col = oq, order_id_col = oi,
          order_line_col = ol, order_status_col = os, buff_article_col = ba,
          buff_qty_col = bq, buff_loc_col = bl, buff_dt_col = bd, buff_id_col = bi,
          buff_status_col = bs\<rparr>)))))))))))"

section \<open>Buffer filters and queues (lines 59-99)\<close>

definition loc_excluded :: "string \<Rightarrow> bool" where
  "loc_excluded l = (let loc_upper = upper_py l in
     list_ex (\<lambda>p. startswith loc_upper p) INVALID_LOC_PREFIXES \<or> loc_upper \<in> set INVALID_LOC_EXACT)"

definition is_autostore :: "string \<Rightarrow> bool" where
  "is_autostore l = str_contains (upper_py l) ''AUTOSTORE''"

text \<open>
  The status filter of lines 60-68 runs only when a status column was found. A cell equal
  to one of the texts \<open>29\<close>, \<open>30\<close>, \<open>32\<close> has that numeral extracted, so the mask is the
  membership of the extracted numeral.
\<close>

definition status_allowed :: "int list \<Rightarrow> int option \<Rightarrow> bool" where
  "status_allowed allowed s = (case s of None \<Rightarrow> False | Some n \<Rightarrow> n \<in> set allowed)"

definition filter_buffer :: "string option \<Rightarrow> buffer_row list \<Rightarrow> buffer_row list" where
  "filter_buffer status_col buffer_df =
     (let b1 = (if status_col \<noteq> None
                then filter (\<lambda>r. status_allowed ALLOC_BUFFER_STATUSES (b_status_num r)) buffer_df
                else buffer_df);
          b2 = filter (\<lambda>r. \<not> loc_excluded (b_loc r)) b1
      in filter (\<lambda>r. b_qty r > 0) b2)"

text \<open>\<open>pd.Timestamp("2262-04-11")\<close> in nanoseconds; it stands in for \<open>NaT\<close> when sorting.\<close>

definition far_future :: int where
  "far_future = 9223286400000000000"

definition received_ord :: "buffer_row \<Rightarrow> int" where
  "received_ord r = (case b_received r of None \<Rightarrow> far_future | Some t \<Rightarrow> t)"

definition sort_buffer :: "buffer_row list \<Rightarrow> buffer_row list" where
  "sort_buffer rs = sort_key (\<lambda>r. (b_artikel r, received_ord r, b_source_id r)) rs"

definition unit_of :: "buffer_row \<Rightarrow> unit_rec" where
  "unit_of r = \<lparr>source_id = b_source_id r, qty = b_qty r, loc = b_loc r, received = b_received r\<rparr>"

definition build_queues :: "buffer_row list \<Rightarrow> string \<Rightarrow> unit_rec list" where
  "build_queues rs art = map unit_of (filter (\<lambda>r. b_artikel r = art) rs)"

section \<open>The result tables and the promotion pass (lines 201-231)\<close>

text \<open>A \<open>DataFrame\<close>: its column names and its rows.\<close>

record 'r table =
  columns :: "string list"
  rows :: "'r list"

text \<open>\<open>pd.DataFrame(list_of_dicts)\<close>: the keys of the dictionaries, and no column for no row.\<close>

definition DataFrame :: "string list \<Rightarrow> 'r list \<Rightarrow> 'r table" where
  "DataFrame keys rs = \<lparr>columns = (if rs = [] then [] else keys), rows = rs\<rparr>"

definition added_cols :: "string list" where
  "added_cols = [''Zon (ber'' @ a_uml @ ''knad)'', ''K'' @ a_uml @ ''lltyp'',
     ''K'' @ a_uml @ ''lla'', ''K'' @ a_uml @ ''llplats'']"

definition near_miss_keys :: "string list" where
  "near_miss_keys = [''Artikel'', ''OrderID'', ''OrderRad'', ''PallID'', ''K'' @ a_uml @ ''llplats'',
     ''Mottagen'', ''Behov_vid_tillf'' @ a_uml @ ''llet'', ''Pall_kvantitet'', ''Skillnad'',
     ''Procentuell skillnad (%)'', ''Anledning'', ''G'' @ a_uml @ ''ller (INSTEAD R/A)'']"

text \<open>The keys of an allocated row: the order's columns, the derived ones, the added ones.\<close>

definition alloc_row_keys :: "string list \<Rightarrow> string list" where
  "alloc_row_keys orders_columns =
     (let oc = foldl (\<lambda>cs c. if c \<in> set cs then cs else cs @ [c]) orders_columns
                 [''_artikel'', ''_qty'', ''_order_id'', ''_order_line''];
          ac = foldl (\<lambda>cs c. if c \<in> set cs then cs else cs @ [c]) oc added_cols
      in ac)"

definition is_space :: "char \<Rightarrow> bool" where
  "is_space c = (let n = (of_char c :: nat) in n = 32 \<or> (9 \<le> n \<and> n \<le> 13) \<or> (28 \<le> n \<and> n \<le> 31))"

definition strip_py :: "string \<Rightarrow> string" where
  "strip_py s = rev (dropWhile is_space (rev (dropWhile is_space s)))"

text \<open>Lines 208-212: the article column of the result table is looked up again by name.\<close>

definition art_col_res :: "string list \<Rightarrow> string option" where
  "art_col_res cols = find_exact (lower_cols cols)
     [''artikel'', ''article'', ''artnr'', ''art.nr'', ''artikelnummer'', ''_artikel'']"

text \<open>The stripped text of a row's cell in that column.\<close>

definition art_res_value :: "string \<Rightarrow> alloc_row \<Rightarrow> string" where
  "art_res_value c r = strip_py
     (if c = ''_artikel'' then o_artikel (a_order r)
      else case map_of (o_cells (a_order r)) c of Some t \<Rightarrow> t | None \<Rightarrow> [])"

text \<open>Lines 214-219, for the article value \<open>art_of\<close> of a row.\<close>

definition promote :: "(alloc_row \<Rightarrow> string) \<Rightarrow> alloc_row list \<Rightarrow> alloc_row list" where
  "promote art_of ars =
     (let auto_arts = map art_of (filter (\<lambda>r. a_ktyp r = AUTOSTORE) ars) in
      if auto_arts \<noteq> [] then
        map (\<lambda>r. if art_of r \<in> set auto_arts \<and> a_ktyp r \<noteq> HELPALL
                  then r\<lparr>a_ktyp := AUTOSTORE, a_zon := ''R''\<rparr> else r) ars
      else ars)"

section \<open>allocate\<close>

text \<open>Lines 39-49: order lines of status 35 are dropped when a status column was found.\<close>

definition filter_orders :: "string option \<Rightarrow> order_row list \<Rightarrow> order_row list" where
  "filter_orders status_col orders =
     (if status_col \<noteq> None then filter (\<lambda>r. o_status_num r \<noteq> Some 35) orders else orders)"

definition initial_state :: "string option \<Rightarrow> buffer_row list \<Rightarrow> alloc_state" where
  "initial_state status_col buffer_rows =
     (let buffer_df = filter_buffer status_col buffer_rows;
          pallets = sort_buffer (filter (\<lambda>r. \<not> is_autostore (b_loc r)) buffer_df);
          bins = sort_buffer (filter (\<lambda>r. is_autostore (b_loc r)) buffer_df)
      in \<lparr>pallet_queues = build_queues pallets, bin_queues = build_queues bins,
          allocated_rows = [], near_miss_rows = []\<rparr>)"

definition run_lines :: "order_row list \<Rightarrow> alloc_state \<Rightarrow> alloc_state" where
  "run_lines orders st = foldl (\<lambda>s orow. process_line orow s) st orders"

definition promotion_pass :: "string list \<Rightarrow> alloc_row list \<Rightarrow> alloc_row list" where
  "promotion_pass orders_columns ars =
     (if ars = [] then ars
      else case art_col_res (alloc_row_keys orders_columns) of
             Some c \<Rightarrow> promote (art_res_value c) ars
           | None \<Rightarrow> ars)"

definition allocate :: "string list \<Rightarrow> string list \<Rightarrow> order_row list \<Rightarrow> buffer_row list \<Rightarrow>
    error + (alloc_row table \<times> near_miss table)" where
  "allocate orders_columns buffer_columns orders_rows buffer_rows =
     bind_err (resolve_columns orders_columns buffer_columns) (\<lambda>cols.
       let orders = filter_orders (order_status_col cols) orders_rows;
           st = run_lines orders (initial_state (buff_status_col cols) buffer_rows);
           allocated = promotion_pass orders_columns (allocated_rows st);
           ordered_cols = orders_columns @ filter (\<lambda>c. c \<notin> set orders_columns) added_cols
       in Inr (\<lparr>columns = ordered_cols, rows = allocated\<rparr>,
               DataFrame near_miss_keys (near_miss_rows st)))"

section \<open>The refill calculator (logic/refill.py)\<close>

text \<open>
  Python's \<open>round\<close> on a float (to the nearest integer, a tie to the even one) and
  \<open>int\<close> (towards zero), on exact rationals.
\<close>

definition py_round :: "rat \<Rightarrow> int" where
  "py_round x = (let f = \<lfloor>x\<rfloor>; d = x - of_int f in
     if d < 1 / 2 then f else if 1 / 2 < d then f + 1 else if even f then f else f + 1)"

definition py_int :: "rat \<Rightarrow> int" where
  "py_int x = (if 0 \<le> x then \<lfloor>x\<rfloor> else \<lceil>x\<rceil>)"

text \<open>
  The rows of the normalised pick-face stock table (\<open>Artikel\<close>, \<open>Plocksaldo\<close>, \<open>Plockplats\<close>)
  and of the backlog table (article, quantity); an absent or empty table is the empty list.
\<close>

record saldo_row =
  s_artikel :: string
  s_plocksaldo :: rat
  s_plockplats :: string

definition saldo_sum :: "saldo_row list \<Rightarrow> string \<Rightarrow> rat" where
  "saldo_sum s_norm art = sum_list (map s_plocksaldo (filter (\<lambda>r. s_artikel r = art) s_norm))"

definition plockplats_by_art :: "saldo_row list \<Rightarrow> string \<Rightarrow> string" where
  "plockplats_by_art s_norm art =
     (case filter (\<lambda>r. s_artikel r = art \<and> s_plockplats r \<noteq> []) s_norm of
        [] \<Rightarrow> [] | r # _ \<Rightarrow> s_plockplats r)"

definition npu_sum :: "(string \<times> rat) list \<Rightarrow> string \<Rightarrow> rat" where
  "npu_sum npu art = sum_list (map snd (filter (\<lambda>r. fst r = art) npu))"

text \<open>Lines 77-85: the buffer snapshot and the ids of the units used as HELPALL sources.\<close>

definition refill_buffer :: "string option \<Rightarrow> buffer_row list \<Rightarrow> buffer_row list" where
  "refill_buffer status_col b =
     (if status_col \<noteq> None
      then filter (\<lambda>r. status_allowed REFILL_BUFFER_STATUSES (b_status_num r)) b else b)"

definition used_help_ids :: "alloc_row list \<Rightarrow> string list" where
  "used_help_ids result = map a_kalla (filter (\<lambda>r. a_ktyp r = HELPALL) result)"

text \<open>\<open>fifo_for_art\<close> (lines 114-118); \<open>NaT\<close> sorts last.\<close>

definition received_key :: "buffer_row \<Rightarrow> nat \<times> int" where
  "received_key r = (case b_received r of None \<Rightarrow> (1, 0) | Some t \<Rightarrow> (0, t))"

definition fifo_for_art :: "buffer_row list \<Rightarrow> string list \<Rightarrow> string \<Rightarrow> buffer_row list" where
  "fifo_for_art b used art_key =
     (let d = filter (\<lambda>r. b_artikel r = art_key) b;
          d' = (if d \<noteq> [] \<and> used \<noteq> [] then filter (\<lambda>r. b_source_id r \<notin> set used) d else d)
      in sort_key received_key d')"

definition tillgangligt :: "buffer_row list \<Rightarrow> rat" where
  "tillgangligt fifo_df = sum_list (map b_qty fifo_df)"

text \<open>The loops of lines 152-154 and 193-195: units counted until the need is covered.\<close>

fun pall_count :: "rat \<Rightarrow> rat list \<Rightarrow> nat" where
  "pall_count behov_kvar [] = 0"
| "pall_count behov_kvar (q # qs) =
     (if behov_kvar \<le> 0 then 0 else Suc (pall_count (behov_kvar - q) qs))"

record refill_hp_row =
  hp_artikel :: string
  hp_zon :: string
  hp_behov :: int
  hp_fifo :: nat
  hp_tillrackligt :: string
  hp_plockplats :: string
  hp_ej_inlagrade :: int

record refill_as_row =
  as_artikel :: string
  as_behov :: int
  as_fifo :: nat
  as_tillrackligt :: string
  as_plockplats :: string
  as_ej_inlagrade :: int

definition refill_hp_keys :: "string list" where
  "refill_hp_keys = [''Artikel'', ''Zon'', ''Behov (kolli)'', ''FIFO-baserad ber'' @ a_uml @ ''kning'',
     ''Tillr'' @ a_uml @ ''ckligt tillg'' @ a_uml @ ''ngligt saldo i buffert'', ''Plockplats'',
     ''Ej inlagrade (antal)'']"

definition refill_as_keys :: "string list" where
  "refill_as_keys = [''Artikel'', ''Behov (kolli)'', ''FIFO-baserad ber'' @ a_uml @ ''kning'',
     ''Tillr'' @ a_uml @ ''ckligt tillg'' @ a_uml @ ''ngligt saldo i buffert'', ''Plockplats'',
     ''Ej inlagrade (antal)'']"

text \<open>
  Lines 120-127: the rows of type HUVUDPLOCK or SKRYMMANDE, their zone, and the demand
  summed per article and zone. The article and the quantity of a result row are read from
  the columns that \<open>allocate\<close> resolved (\<open>o_artikel\<close>, \<open>a_qty\<close>).
\<close>

definition hp_zon_of :: "alloc_row \<Rightarrow> string" where
  "hp_zon_of r = (if a_ktyp r = SKRYMMANDE then ''S'' else ''A'')"

definition hp_like :: "alloc_row list \<Rightarrow> alloc_row list" where
  "hp_like result = filter (\<lambda>r. a_ktyp r = HUVUDPLOCK \<or> a_ktyp r = SKRYMMANDE) result"

text \<open>The groups of one article, in the order of the sorted group keys.\<close>

definition grp_art :: "alloc_row list \<Rightarrow> string \<Rightarrow> (string \<times> rat) list" where
  "grp_art hp art =
     map (\<lambda>z. (z, sum_list (map a_qty (filter (\<lambda>r. o_artikel (a_order r) = art \<and> hp_zon_of r = z) hp))))
       (filter (\<lambda>z. list_ex (\<lambda>r. o_artikel (a_order r) = art \<and> hp_zon_of r = z) hp) [''A'', ''S''])"

definition articles_of :: "alloc_row list \<Rightarrow> string list" where
  "articles_of rs = sort (remdups (map (\<lambda>r. o_artikel (a_order r)) rs))"

text \<open>Lines 135-143: the shares, each rounded, and the remainder added to the first.\<close>

definition zone_parts :: "(string \<times> rat) list \<Rightarrow> rat \<Rightarrow> rat \<Rightarrow> (string \<times> int) list" where
  "zone_parts grp total_need adjusted_total =
     (let parts = map (\<lambda>(zone, q). (zone, py_round ((q / total_need) * adjusted_total))) grp;
          allocated_sum = sum_list (map snd parts);
          diff = py_int adjusted_total - allocated_sum
      in case parts of [] \<Rightarrow> [] | (z, v) # ps \<Rightarrow> (z, v + diff) # ps)"

text \<open>Lines 148-164: one row for each part that is positive.\<close>

definition hp_rows_of_parts :: "string \<Rightarrow> buffer_row list \<Rightarrow> string \<Rightarrow> int \<Rightarrow> (string \<times> int) list \<Rightarrow>
    refill_hp_row list" where
  "hp_rows_of_parts art_key fifo_df plockplats ej_inlagrade parts =
     concat (map (\<lambda>(zone, v).
        (let behov_int = max 0 v in
         if behov_int \<le> 0 then []
         else [\<lparr>hp_artikel = art_key, hp_zon = zone, hp_behov = behov_int,
                 hp_fifo = pall_count (of_int behov_int) (map b_qty fifo_df),
                 hp_tillrackligt = (if tillgangligt fifo_df \<ge> of_int behov_int then ''Ja'' else ''Nej''),
                 hp_plockplats = plockplats, hp_ej_inlagrade = ej_inlagrade\<rparr>])) parts)"

text \<open>The body of the loop over the articles (lines 129-164).\<close>

definition hp_rows_of_art :: "alloc_row list \<Rightarrow> buffer_row list \<Rightarrow> string list \<Rightarrow> saldo_row list \<Rightarrow>
    (string \<times> rat) list \<Rightarrow> string \<Rightarrow> refill_hp_row list" where
  "hp_rows_of_art hp b used s_norm npu art_key =
     (let grp = grp_art hp art_key;
          total_need = sum_list (map snd grp)
      in if total_need \<le> 0 then []
         else let adjusted_total = max 0 (of_int (py_round total_need) - saldo_sum s_norm art_key)
           in if adjusted_total \<le> 0 then []
              else hp_rows_of_parts art_key (fifo_for_art b used art_key)
                     (plockplats_by_art s_norm art_key) (py_round (npu_sum npu art_key))
                     (zone_parts grp total_need adjusted_total))"

text \<open>Lines 170-210: the rows of type AUTOSTORE without a source id, one row per article.\<close>

definition as_like :: "alloc_row list \<Rightarrow> alloc_row list" where
  "as_like result = filter (\<lambda>r. a_ktyp r = AUTOSTORE \<and> strip_py (a_kalla r) = []) result"

definition as_rows_of_art :: "alloc_row list \<Rightarrow> buffer_row list \<Rightarrow> string list \<Rightarrow> saldo_row list \<Rightarrow>
    (string \<times> rat) list \<Rightarrow> string \<Rightarrow> refill_as_row list" where
  "as_rows_of_art as_df b used s_norm npu art_key =
     (let behov = sum_list (map a_qty (filter (\<lambda>r. o_artikel (a_order r) = art_key) as_df));
          fifo_df = fifo_for_art b used art_key;
          behov_int = py_int (max 0 (of_int (py_round behov) - saldo_sum s_norm art_key))
      in if behov_int \<le> 0 then []
         else [\<lparr>as_artikel = art_key, as_behov = behov_int,
                 as_fifo = pall_count (of_int behov_int) (map b_qty fifo_df),
                 as_tillrackligt = (if tillgangligt fifo_df \<ge> of_int behov_int then ''Ja'' else ''Nej''),
                 as_plockplats = plockplats_by_art s_norm art_key,
                 as_ej_inlagrade = py_round (npu_sum npu art_key)\<rparr>])"

text \<open>
  \<open>calculate_refill\<close>: the columns of the result and of the buffer are resolved first
  (lines 62-69); the rows are then the normalised ones. Rows that tie on the sort key keep
  their order here.
\<close>

definition calculate_refill :: "string list \<Rightarrow> string list \<Rightarrow> alloc_row list \<Rightarrow> buffer_row list \<Rightarrow>
    saldo_row list \<Rightarrow> (string \<times> rat) list \<Rightarrow> error + (refill_hp_row table \<times> refill_as_row table)" where
  "calculate_refill result_columns buffer_columns result buff s_norm npu =
     bind_err (find_col result_columns ORDER_SCHEMA_artikel True None) (\<lambda>art_col_res.
     bind_err (find_col result_columns ORDER_SCHEMA_qty True None) (\<lambda>qty_col_res.
     bind_err (find_col buffer_columns BUFFER_SCHEMA_artikel True None) (\<lambda>art_col_buf.
     bind_err (find_col buffer_columns BUFFER_SCHEMA_qty True None) (\<lambda>qty_col_buf.
     bind_err (find_col buffer_columns BUFFER_SCHEMA_dt False None) (\<lambda>dt_col_buf.
     bind_err (find_col buffer_columns BUFFER_SCHEMA_id False None) (\<lambda>id_col_buf.
     bind_err (find_col buffer_columns BUFFER_SCHEMA_status False None) (\<lambda>status_col_buf.
       let b = refill_buffer status_col_buf buff;
           used = used_help_ids result;
           hp = hp_like result;
           rows_hp = concat (map (hp_rows_of_art hp b used s_norm npu) (articles_of hp));
           refill_hp_df = DataFrame refill_hp_keys
              (sort_key (\<lambda>r. (hp_zon r, - int (hp_fifo r))) rows_hp);
           as_df = as_like result;
           rows_as = concat (map (as_rows_of_art as_df b used s_norm npu) (articles_of as_df));
           refill_autostore_df = DataFrame refill_as_keys
              (sort_key (\<lambda>r. - int (as_fifo r)) rows_as)
       in Inr (refill_hp_df, refill_autostore_df))))))))"

section \<open>Notions used in the statements, and sample data\<close>


text \<open>The queues hold units of positive quantity only.\<close>

definition queues_positive :: "alloc_state \<Rightarrow> bool" where
  "queues_positive st \<longleftrightarrow>
     (\<forall>art. list_all (\<lambda>u. 0 < qty u) (pallet_queues st art)
          \<and> list_all (\<lambda>u. 0 < qty u) (bin_queues st art))"

text \<open>A small orders table and buffer table, used to run the model on concrete rows.\<close>

definition ex_orders_columns :: "string list" where
  "ex_orders_columns = [''Artikel'', ''Antal'']"

definition ex_buffer_columns :: "string list" where
  "ex_buffer_columns = [''Artikel'', ''Antal'', ''Lagerplats'', ''Status'']"

definition ex_cols :: resolved_cols where
  "ex_cols = \<lparr>order_article_col = Some ''Artikel'', order_qty_col = Some ''Antal'',
     order_id_col = None, order_line_col = None, order_status_col = None,
     buff_article_col = Some ''Artikel'', buff_qty_col = Some ''Antal'',
     buff_loc_col = Some ''Lagerplats'', buff_dt_col = None, buff_id_col = None,
     buff_status_col = Some ''Status''\<rparr>"

definition ex_order :: "string \<Rightarrow> rat \<Rightarrow> order_row" where
  "ex_order line need = \<lparr>o_cells = [(''Artikel'', ''X''), (''Antal'', [])], o_artikel = ''X'',
     o_qty = need, o_order_id = [], o_order_line = line, o_status_num = None\<rparr>"

definition ex_pallet :: "string \<Rightarrow> rat \<Rightarrow> buffer_row" where
  "ex_pallet ident q = \<lparr>b_artikel = ''X'', b_qty = q, b_loc = ''B-01'', b_received = None,
     b_source_id = ident, b_status_num = Some 29\<rparr>"

definition ex_bin :: "string \<Rightarrow> rat \<Rightarrow> buffer_row" where
  "ex_bin ident q = \<lparr>b_artikel = ''X'', b_qty = q, b_loc = ''AutoStore 1'', b_received = None,
     b_source_id = ident, b_status_num = Some 30\<rparr>"

section \<open>Properties of the allocation engine\<close>

lemma helpall_loop_rows:
  "helpall_loop orow tmp need npq any ars nms = (tmp', need', npq', any', ars', nms') \<Longrightarrow>
   \<exists>new. ars' = ars @ new \<and> sum_list (map a_qty new) = need - need'
      \<and> (\<forall>r\<in>set new. a_order r = orow \<and> a_ktyp r = HELPALL \<and> (\<exists>p\<in>set tmp. a_qty r = qty p))
      \<and> (any' \<longleftrightarrow> any \<or> new \<noteq> [])"
proof (induction tmp arbitrary: need npq any ars nms)
  case Nil
  then show ?case by simp
next
  case (Cons pal tmp)
  show ?case
  proof (cases "need > 0")
    case False
    with Cons.prems show ?thesis by simp
  next
    case pos: True
    show ?thesis
    proof (cases "qty pal \<le> need")
      case True
      with pos Cons.prems have
        "helpall_loop orow tmp (need - qty pal) npq True (ars @ [helpall_row orow pal]) nms
           = (tmp', need', npq', any', ars', nms')" by simp
      from Cons.IH[OF this] obtain new where
        n: "ars' = (ars @ [helpall_row orow pal]) @ new"
           "sum_list (map a_qty new) = need - qty pal - need'"
           "\<forall>r\<in>set new. a_order r = orow \<and> a_ktyp r = HELPALL \<and> (\<exists>p\<in>set tmp. a_qty r = qty p)"
           "any' \<longleftrightarrow> True \<or> new \<noteq> []"
        by blast
      show ?thesis
        apply (rule exI[of _ "helpall_row orow pal # new"])
        using n by (auto simp: helpall_row_def)
    next
      case False
      with pos Cons.prems have
        "helpall_loop orow tmp need (npq @ [pal]) any ars (record_near_miss orow pal need nms)
           = (tmp', need', npq', any', ars', nms')" by simp
      from Cons.IH[OF this] obtain new where
        n: "ars' = ars @ new"
           "sum_list (map a_qty new) = need - need'"
           "\<forall>r\<in>set new. a_order r = orow \<and> a_ktyp r = HELPALL \<and> (\<exists>p\<in>set tmp. a_qty r = qty p)"
           "any' \<longleftrightarrow> any \<or> new \<noteq> []"
        by blast
      show ?thesis
        apply (rule exI[of _ new])
        using n by auto
    qed
  qed
qed

lemma autostore_loop_rows:
  "autostore_loop orow bq need nbq any ars = (bq', need', nbq', any', ars') \<Longrightarrow>
   \<exists>new. ars' = ars @ new \<and> sum_list (map a_qty new) = need - need'
      \<and> (\<forall>r\<in>set new. a_order r = orow \<and> a_ktyp r = AUTOSTORE \<and> a_zon r = ''R'' \<and> 0 < a_qty r)
      \<and> (any' \<longleftrightarrow> any \<or> new \<noteq> [])"
proof (induction bq arbitrary: need nbq any ars)
  case Nil
  then show ?case by simp
next
  case (Cons binr bq)
  show ?case
  proof (cases "need > 0")
    case False
    with Cons.prems show ?thesis by simp
  next
    case pos: True
    define t where "t = min (qty binr) need"
    show ?thesis
    proof (cases "t > 0")
      case True
      with pos Cons.prems have
        "autostore_loop orow bq (need - t)
           (if qty (binr\<lparr>qty := qty binr - t\<rparr>) > 0 then nbq @ [binr\<lparr>qty := qty binr - t\<rparr>] else nbq)
           True (ars @ [autostore_row orow binr t]) = (bq', need', nbq', any', ars')"
        by (auto simp: t_def Let_def min_def split: if_splits)
      from Cons.IH[OF this] obtain new where
        n: "ars' = (ars @ [autostore_row orow binr t]) @ new"
           "sum_list (map a_qty new) = need - t - need'"
           "\<forall>r\<in>set new. a_order r = orow \<and> a_ktyp r = AUTOSTORE \<and> a_zon r = ''R'' \<and> 0 < a_qty r"
           "any' \<longleftrightarrow> True \<or> new \<noteq> []"
        by blast
      show ?thesis
        apply (rule exI[of _ "autostore_row orow binr t # new"])
        using n True by (auto simp: autostore_row_def)
    next
      case False
      with pos Cons.prems have
        "autostore_loop orow bq need (if qty binr > 0 then nbq @ [binr] else nbq) any ars
           = (bq', need', nbq', any', ars')"
        by (auto simp: t_def Let_def min_def split: if_splits)
      from Cons.IH[OF this] show ?thesis by blast
    qed
  qed
qed






lemma run_lines_Cons: "run_lines (x # xs) st = run_lines xs (process_line x st)"
  by (simp add: run_lines_def)

lemma run_lines_Nil: "run_lines [] st = st"
  by (simp add: run_lines_def)





lemma promote_order_qty:
  "map (\<lambda>r. (a_order r, a_qty r)) (promote k ars) = map (\<lambda>r. (a_order r, a_qty r)) ars"
  by (simp add: promote_def Let_def)

lemma promotion_pass_order_qty:
  "map (\<lambda>r. (a_order r, a_qty r)) (promotion_pass oc ars) = map (\<lambda>r. (a_order r, a_qty r)) ars"
  by (simp add: promotion_pass_def promote_order_qty split: option.splits)



lemma initial_state_rows: "allocated_rows (initial_state sc buffer) = []"
  by (simp add: initial_state_def Let_def)

lemma allocate_Inr:
  "resolve_columns oc bc = Inr cols \<Longrightarrow>
   allocate oc bc orders buffer =
     Inr (\<lparr>columns = oc @ filter (\<lambda>c. c \<notin> set oc) added_cols,
           rows = promotion_pass oc (allocated_rows (run_lines (filter_orders (order_status_col cols) orders)
                    (initial_state (buff_status_col cols) buffer)))\<rparr>,
          DataFrame near_miss_keys (near_miss_rows (run_lines (filter_orders (order_status_col cols) orders)
                    (initial_state (buff_status_col cols) buffer))))"
  by (simp add: allocate_def bind_err_def Let_def)



lemma ex_resolve_columns: "resolve_columns ex_orders_columns ex_buffer_columns = Inr ex_cols"
  by code_simp


lemma helpall_loop_positive:
  "helpall_loop orow tmp need npq any ars nms = (tmp', need', npq', any', ars', nms') \<Longrightarrow>
   list_all (\<lambda>u. 0 < qty u) tmp \<Longrightarrow> list_all (\<lambda>u. 0 < qty u) npq \<Longrightarrow>
   list_all (\<lambda>r. 0 < a_qty r) ars \<Longrightarrow>
   list_all (\<lambda>u. 0 < qty u) (npq' @ tmp') \<and> list_all (\<lambda>r. 0 < a_qty r) ars'"
  by (induction orow tmp need npq any ars nms rule: helpall_loop.induct)
     (auto simp: helpall_row_def split: if_splits)

lemma autostore_loop_positive:
  "autostore_loop orow bq need nbq any ars = (bq', need', nbq', any', ars') \<Longrightarrow>
   list_all (\<lambda>u. 0 < qty u) bq \<Longrightarrow> list_all (\<lambda>u. 0 < qty u) nbq \<Longrightarrow>
   list_all (\<lambda>r. 0 < a_qty r) ars \<Longrightarrow>
   list_all (\<lambda>u. 0 < qty u) (nbq' @ bq') \<and> list_all (\<lambda>r. 0 < a_qty r) ars'"
proof (induction bq arbitrary: need nbq any ars)
  case Nil
  then show ?case by simp
next
  case (Cons binr bq)
  show ?case
  proof (cases "need > 0")
    case False
    with Cons.prems show ?thesis by simp
  next
    case pos: True
    define t where "t = min (qty binr) need"
    define binr' where "binr' = binr\<lparr>qty := qty binr - t\<rparr>"
    have bq: "list_all (\<lambda>u. 0 < qty u) bq" and b: "0 < qty binr"
      using Cons.prems(2) by simp_all
    have t: "0 < t" using b pos by (simp add: t_def)
    have eq: "autostore_loop orow bq (need - t)
           (if qty binr' > 0 then nbq @ [binr'] else nbq)
           True (ars @ [autostore_row orow binr t]) = (bq', need', nbq', any', ars')"
      using Cons.prems(1) pos t by (auto simp: t_def binr'_def Let_def min_def split: if_splits)
    have n: "list_all (\<lambda>u. 0 < qty u) (if qty binr' > 0 then nbq @ [binr'] else nbq)"
      using Cons.prems(3) by simp
    have r: "list_all (\<lambda>r. 0 < a_qty r) (ars @ [autostore_row orow binr t])"
      using Cons.prems(4) t by (simp add: autostore_row_def)
    from Cons.IH[OF eq bq n r] show ?thesis .
  qed
qed

lemma process_line_positive:
  assumes "queues_positive st" and "list_all (\<lambda>r. 0 < a_qty r) (allocated_rows st)"
  shows "queues_positive (process_line orow st) \<and> list_all (\<lambda>r. 0 < a_qty r) (allocated_rows (process_line orow st))"
proof (cases "o_qty orow \<le> 0")
  case True
  with assms show ?thesis by (simp add: process_line_def)
next
  case False
  obtain tmp need1 new_pq any_helpall ars1 nms1 where
    h: "helpall_loop orow (pallet_queues st (o_artikel orow)) (o_qty orow) [] False
          (allocated_rows st) (near_miss_rows st) = (tmp, need1, new_pq, any_helpall, ars1, nms1)"
    by (metis prod_cases3)
  obtain bq need2 new_bq any_autostore ars2 where
    a: "autostore_loop orow (bin_queues st (o_artikel orow)) need1 [] False ars1
          = (bq, need2, new_bq, any_autostore, ars2)"
    by (metis prod_cases3)
  have p1: "list_all (\<lambda>u. 0 < qty u) (new_pq @ tmp) \<and> list_all (\<lambda>r. 0 < a_qty r) ars1"
    using helpall_loop_positive[OF h] assms by (simp add: queues_positive_def)
  have p2: "list_all (\<lambda>u. 0 < qty u) (new_bq @ bq) \<and> list_all (\<lambda>r. 0 < a_qty r) ars2"
    using autostore_loop_positive[OF a] assms p1 by (simp add: queues_positive_def)
  show ?thesis
    using False h a p1 p2 assms(1)
    by (simp add: process_line_def Let_def queues_positive_def huvudplock_row_def)
qed

lemma run_lines_positive:
  "queues_positive st \<Longrightarrow> list_all (\<lambda>r. 0 < a_qty r) (allocated_rows st) \<Longrightarrow>
   list_all (\<lambda>r. 0 < a_qty r) (allocated_rows (run_lines orders st))"
proof (induction orders arbitrary: st)
  case Nil
  then show ?case by (simp add: run_lines_Nil)
next
  case (Cons x xs)
  from process_line_positive[OF Cons.prems, of x] Cons.IH[of "process_line x st"]
  show ?case by (simp add: run_lines_Cons)
qed

lemma build_queues_positive:
  "list_all (\<lambda>r. 0 < b_qty r) rs \<Longrightarrow> list_all (\<lambda>u. 0 < qty u) (build_queues rs art)"
  by (induction rs) (simp_all add: build_queues_def unit_of_def)

lemma sort_buffer_positive:
  "list_all (\<lambda>r. 0 < b_qty r) rs \<Longrightarrow> list_all (\<lambda>r. 0 < b_qty r) (sort_buffer rs)"
  by (simp add: sort_buffer_def list_all_iff)

lemma filter_buffer_positive: "list_all (\<lambda>r. 0 < b_qty r) (filter_buffer sc buffer)"
  by (simp add: filter_buffer_def Let_def list_all_iff)

lemma initial_state_positive: "queues_positive (initial_state sc buffer)"
proof -
  have f: "list_all (\<lambda>r. 0 < b_qty r) (filter P (filter_buffer sc buffer))" for P
    using filter_buffer_positive[of sc buffer] by (simp add: list_all_iff)
  show ?thesis
    unfolding queues_positive_def initial_state_def Let_def
    by (simp add: build_queues_positive sort_buffer_positive f)
qed

lemma promotion_pass_qty: "map a_qty (promotion_pass oc ars) = map a_qty ars"
proof -
  have "map snd (map (\<lambda>r. (a_order r, a_qty r)) (promotion_pass oc ars))
      = map snd (map (\<lambda>r. (a_order r, a_qty r)) ars)"
    by (simp only: promotion_pass_order_qty)
  then show ?thesis by (simp add: comp_def)
qed

lemma list_all_qty_map: "list_all (\<lambda>r. 0 < a_qty r) ars \<longleftrightarrow> list_all (\<lambda>q. 0 < q) (map a_qty ars)"
  by (simp add: list_all_iff)

text \<open>
  Claim C10. Every row of the table that \<open>allocate\<close> returns has a quantity above zero:
  a HELPALL row carries the quantity of a buffer unit that passed the filter \<open>_qty > 0\<close>,
  an AUTOSTORE row is emitted only for a positive \<open>take\<close>, and the HUVUDPLOCK row only
  for a positive remaining need.
\<close>

theorem allocate_rows_positive:
  assumes "allocate oc bc orders buffer = Inr (atab, ntab)"
  shows "\<forall>r\<in>set (rows atab). 0 < a_qty r"
proof -
  obtain cols where c: "resolve_columns oc bc = Inr cols"
    using assms by (cases "resolve_columns oc bc") (simp_all add: allocate_def bind_err_def)
  define st where "st = run_lines (filter_orders (order_status_col cols) orders)
                    (initial_state (buff_status_col cols) buffer)"
  have "list_all (\<lambda>r. 0 < a_qty r) (allocated_rows st)"
    unfolding st_def by (rule run_lines_positive[OF initial_state_positive])
       (simp add: initial_state_rows)
  then have "list_all (\<lambda>r. 0 < a_qty r) (promotion_pass oc (allocated_rows st))"
    by (simp only: list_all_qty_map promotion_pass_qty)
  moreover have "rows atab = promotion_pass oc (allocated_rows st)"
    using assms unfolding allocate_Inr[OF c] st_def by auto
  ultimately show ?thesis by (simp add: list_all_iff)
qed


lemma ex_promotion_pass:
  "promotion_pass ex_orders_columns ars = (if ars = [] then ars else promote (art_res_value ''Artikel'') ars)"
proof -
  have "art_col_res (alloc_row_keys ex_orders_columns) = Some ''Artikel''" by code_simp
  then show ?thesis by (simp add: promotion_pass_def)
qed

lemma ex_allocate:
  assumes "allocated_rows (run_lines orders (initial_state (Some ''Status'') buffer)) = ars"
    and "near_miss_rows (run_lines orders (initial_state (Some ''Status'') buffer)) = nms"
    and "promotion_pass ex_orders_columns ars = ars'"
  shows "allocate ex_orders_columns ex_buffer_columns orders buffer
     = Inr (\<lparr>columns = ex_orders_columns @ added_cols, rows = ars'\<rparr>, DataFrame near_miss_keys nms)"
proof -
  have f: "filter (\<lambda>c. c \<notin> set ex_orders_columns) added_cols = added_cols" by code_simp
  have o: "order_status_col ex_cols = None" and b: "buff_status_col ex_cols = Some ''Status''"
    by (simp_all add: ex_cols_def)
  show ?thesis
    unfolding allocate_Inr[OF ex_resolve_columns] o b f
    by (simp add: filter_orders_def assms)
qed

theorem allocate_rows_positive_witness:
  "allocate ex_orders_columns ex_buffer_columns [ex_order ''0'' 10] [ex_pallet ''P1'' 4, ex_bin ''B1'' 3]
     = Inr (\<lparr>columns = ex_orders_columns @ added_cols,
             rows = [helpall_row (ex_order ''0'' 10) (unit_of (ex_pallet ''P1'' 4)),
                     autostore_row (ex_order ''0'' 10) (unit_of (ex_bin ''B1'' 3)) 3,
                     (huvudplock_row (ex_order ''0'' 10) 3)\<lparr>a_ktyp := AUTOSTORE, a_zon := ''R''\<rparr>]\<rparr>,
            DataFrame near_miss_keys [])
   \<and> 0 < a_qty (helpall_row (ex_order ''0'' 10) (unit_of (ex_pallet ''P1'' 4)))
   \<and> 0 < a_qty (autostore_row (ex_order ''0'' 10) (unit_of (ex_bin ''B1'' 3)) 3)
   \<and> 0 < a_qty ((huvudplock_row (ex_order ''0'' 10) 3)\<lparr>a_ktyp := AUTOSTORE, a_zon := ''R''\<rparr>)"
proof -
  have e1: "allocated_rows (run_lines [ex_order ''0'' 10] (initial_state (Some ''Status'') [ex_pallet ''P1'' 4, ex_bin ''B1'' 3]))
    = [helpall_row (ex_order ''0'' 10) (unit_of (ex_pallet ''P1'' 4)),
       autostore_row (ex_order ''0'' 10) (unit_of (ex_bin ''B1'' 3)) 3, huvudplock_row (ex_order ''0'' 10) 3]"
    by code_simp
  have e2: "near_miss_rows (run_lines [ex_order ''0'' 10] (initial_state (Some ''Status'') [ex_pallet ''P1'' 4, ex_bin ''B1'' 3])) = []"
    by code_simp
  have e3: "promotion_pass ex_orders_columns [helpall_row (ex_order ''0'' 10) (unit_of (ex_pallet ''P1'' 4)),
       autostore_row (ex_order ''0'' 10) (unit_of (ex_bin ''B1'' 3)) 3, huvudplock_row (ex_order ''0'' 10) 3]
     = [helpall_row (ex_order ''0'' 10) (unit_of (ex_pallet ''P1'' 4)),
        autostore_row (ex_order ''0'' 10) (unit_of (ex_bin ''B1'' 3)) 3,
        (huvudplock_row (ex_order ''0'' 10) 3)\<lparr>a_ktyp := AUTOSTORE, a_zon := ''R''\<rparr>]"
    unfolding ex_promotion_pass by code_simp
  note e = ex_allocate[OF e1 e2 e3]
  from allocate_rows_positive[OF e] have "\<forall>r\<in>set (rows \<lparr>columns = ex_orders_columns @ added_cols,
             rows = [helpall_row (ex_order ''0'' 10) (unit_of (ex_pallet ''P1'' 4)),
                     autostore_row (ex_order ''0'' 10) (unit_of (ex_bin ''B1'' 3)) 3,
                     (huvudplock_row (ex_order ''0'' 10) 3)\<lparr>a_ktyp := AUTOSTORE, a_zon := ''R''\<rparr>]\<rparr>). 0 < a_qty r" .
  then have "0 < a_qty (helpall_row (ex_order ''0'' 10) (unit_of (ex_pallet ''P1'' 4)))
     \<and> 0 < a_qty (autostore_row (ex_order ''0'' 10) (unit_of (ex_bin ''B1'' 3)) 3)
     \<and> 0 < a_qty ((huvudplock_row (ex_order ''0'' 10) 3)\<lparr>a_ktyp := AUTOSTORE, a_zon := ''R''\<rparr>)"
    by (simp only: table.select_convs list.set ball_simps insert_iff Un_iff simp_thms)
  with e show ?thesis by (rule conjI)
qed











lemma list_ex_ktyp_all:
  "\<forall>r\<in>set xs. a_ktyp r = k \<Longrightarrow> list_ex (\<lambda>a. a_ktyp a = k') xs \<longleftrightarrow> (k = k' \<and> xs \<noteq> [])"
  by (induction xs) auto

lemma process_line_flag:
  assumes "0 < o_qty orow"
  shows "\<exists>nms1 new. allocated_rows (process_line orow st) = allocated_rows st @ new
     \<and> near_miss_rows (process_line orow st)
        = mark_near_miss orow (\<not> list_ex (\<lambda>a. a_ktyp a = HELPALL) new
             \<and> list_ex (\<lambda>a. a_ktyp a = AUTOSTORE \<or> a_ktyp a = HUVUDPLOCK) new) nms1"
proof -
  obtain tmp need1 new_pq any_helpall ars1 nms1 where
    h: "helpall_loop orow (pallet_queues st (o_artikel orow)) (o_qty orow) [] False
          (allocated_rows st) (near_miss_rows st) = (tmp, need1, new_pq, any_helpall, ars1, nms1)"
    by (metis prod_cases3)
  obtain bq need2 new_bq any_autostore ars2 where
    a: "autostore_loop orow (bin_queues st (o_artikel orow)) need1 [] False ars1
          = (bq, need2, new_bq, any_autostore, ars2)"
    by (metis prod_cases3)
  from helpall_loop_rows[OF h] obtain n1 where
    n1: "ars1 = allocated_rows st @ n1" "\<forall>r\<in>set n1. a_ktyp r = HELPALL"
        "any_helpall \<longleftrightarrow> n1 \<noteq> []" by auto
  from autostore_loop_rows[OF a] obtain n2 where
    n2: "ars2 = ars1 @ n2" "\<forall>r\<in>set n2. a_ktyp r = AUTOSTORE"
        "any_autostore \<longleftrightarrow> n2 \<noteq> []" by auto
  define n3 where "n3 = (if need2 > 0 then [huvudplock_row orow need2] else [])"
  have n3: "\<forall>r\<in>set n3. a_ktyp r = HUVUDPLOCK" "need2 > 0 \<longleftrightarrow> n3 \<noteq> []"
    by (simp_all add: n3_def huvudplock_row_def)
  have rows: "allocated_rows (process_line orow st) = allocated_rows st @ (n1 @ n2 @ n3)"
    using assms h a n1(1) n2(1) by (simp add: process_line_def Let_def n3_def)
  have f1: "list_ex (\<lambda>a. a_ktyp a = HELPALL) (n1 @ n2 @ n3) \<longleftrightarrow> any_helpall"
    using list_ex_ktyp_all[OF n1(2), of HELPALL] list_ex_ktyp_all[OF n2(2), of HELPALL]
          list_ex_ktyp_all[OF n3(1), of HELPALL] n1(3)
    by simp
  have f2: "list_ex (\<lambda>a. a_ktyp a = AUTOSTORE \<or> a_ktyp a = HUVUDPLOCK) (n1 @ n2 @ n3)
       \<longleftrightarrow> any_autostore \<or> need2 > 0"
  proof -
    have d: "list_ex (\<lambda>a. a_ktyp a = AUTOSTORE \<or> a_ktyp a = HUVUDPLOCK) xs
       \<longleftrightarrow> list_ex (\<lambda>a. a_ktyp a = AUTOSTORE) xs \<or> list_ex (\<lambda>a. a_ktyp a = HUVUDPLOCK) xs" for xs
      by (induction xs) auto
    show ?thesis
      using list_ex_ktyp_all[OF n1(2), of AUTOSTORE] list_ex_ktyp_all[OF n2(2), of AUTOSTORE]
          list_ex_ktyp_all[OF n3(1), of AUTOSTORE] list_ex_ktyp_all[OF n1(2), of HUVUDPLOCK]
          list_ex_ktyp_all[OF n2(2), of HUVUDPLOCK] list_ex_ktyp_all[OF n3(1), of HUVUDPLOCK]
          n2(3) n3(2)
      by (simp add: d)
  qed
  have nm: "near_miss_rows (process_line orow st)
      = mark_near_miss orow (\<not> any_helpall \<and> (any_autostore \<or> need2 > 0)) nms1"
    using assms h a by (simp add: process_line_def Let_def)
  show ?thesis
    apply (rule exI[of _ nms1], rule exI[of _ "n1 @ n2 @ n3"])
    unfolding f1 f2 using rows nm by simp
qed

end
